theory Spec2Isabelle
  imports Complex_Main "HOL-Library.Product_Lexorder" "HOL-Library.Multiset"
begin

section \<open>JavaScript strings\<close>

text \<open>
  Strings are character lists. \<open>value.includes('*')\<close> is membership of the character,
  \<open>s.replace(/c/g, t)\<close> and \<open>s.replaceAll(c, t)\<close> replace every occurrence of the
  character \<open>c\<close> by the string \<open>t\<close>, \<open>s.split(c)\<close> cuts at every occurrence of \<open>c\<close>
  (the empty string gives one empty piece), and \<open>.filter(Boolean)\<close> on a list of
  strings drops the empty ones. \<open>toLowerCase\<close> is modelled on ASCII letters.
\<close>

definition replaceAll :: "char \<Rightarrow> string \<Rightarrow> string \<Rightarrow> string" where
  "replaceAll c t s = concat (map (\<lambda>x. if x = c then t else [x]) s)"

fun split :: "char \<Rightarrow> string \<Rightarrow> string list" where
  "split sep [] = [[]]"
| "split sep (c # cs) =
     (if c = sep then [] # split sep cs
      else (c # hd (split sep cs)) # tl (split sep cs))"

definition filter_Boolean :: "string list \<Rightarrow> string list" where
  "filter_Boolean xs = filter (\<lambda>s. s \<noteq> []) xs"

definition toLowerCase_char :: "char \<Rightarrow> char" where
  "toLowerCase_char c =
     (case map_of (zip ''ABCDEFGHIJKLMNOPQRSTUVWXYZ'' ''abcdefghijklmnopqrstuvwxyz'') c of
        None \<Rightarrow> c
      | Some l \<Rightarrow> l)"

definition toLowerCase :: "string \<Rightarrow> string" where
  "toLowerCase s = map toLowerCase_char s"

section \<open>Predicate clauses\<close>

text \<open>
  A numeric query parameter arrives validated as a plain number, as an object
  \<open>{op, value}\<close> or as an object \<open>{op, min, max}\<close>. An operand is what a handler passes
  to an operator of the query builder: a number, a string, a boolean, \<open>undefined\<close>, or
  the filter object itself.
\<close>

datatype numfilter = Plain int | OpValue string int | OpRange string int int

datatype operand = Num int | Text string | Bool bool | Undefined | Filter numfilter

text \<open>
  \<open>Op f c v\<close> is the call \<open>f(table[c], v)\<close> of the query builder's export named \<open>f\<close>
  (\<open>eq\<close>, \<open>gt\<close>, \<open>like\<close>, ..., and \<open>orm[op]\<close> for a name taken from the request);
  \<open>IsNull c\<close> and \<open>IsNotNull c\<close> are the raw fragments \<open>c IS NULL\<close> and
  \<open>c IS NOT NULL\<close>; \<open>RowGt a b\<close> and \<open>RowLt a b\<close> are the raw row-value comparisons
  \<open>(block_number, transaction_index) > (a, b)\<close> and \<open>< (a, b)\<close>, where a component
  that is not a decimal integer is \<open>None\<close>; \<open>And cs\<close> is \<open>and(...cs)\<close>.
\<close>

datatype clause =
    Op string string operand
  | IsNull string
  | IsNotNull string
  | RowGt "int option" "int option"
  | RowLt "int option" "int option"
  | And "clause list"

text \<open>\<open>and(...cs)\<close> of no clause is \<open>undefined\<close>.\<close>

definition and_clauses :: "clause list \<Rightarrow> clause option" where
  "and_clauses cs = (if cs = [] then None else Some (And cs))"

section \<open>Request parameters\<close>

text \<open>
  \<open>searchParams\<close> are the raw pairs of the URL; \<open>has\<close> and \<open>get\<close> are those of
  \<open>URLSearchParams\<close> (\<open>get\<close> returns the first value of a name).
\<close>

type_synonym searchParams = "(string \<times> string) list"

definition has :: "searchParams \<Rightarrow> string \<Rightarrow> bool" where
  "has sp name = (name \<in> fst ` set sp)"

definition get :: "searchParams \<Rightarrow> string \<Rightarrow> string option" where
  "get sp name = map_of sp name"

text \<open>
  \<open>searchQuery\<close> is the validated request a handler receives. The validation schemas
  are not part of the sources, so the record lists the properties the handlers read,
  with the types at which they use them: \<open>page\<close> and \<open>page_size\<close> as integers,
  \<open>page_key\<close> and the \<open>include\<close>/\<open>exclude\<close> lists as optional strings, \<open>where\<close>
  as an optional object of objects (field, then operator, then a string), and the
  per-field filters through \<open>searchQuery[field]\<close>, which has a value for every
  parameter that \<open>searchParams\<close> has. Relation expansion (\<open>expand\<close>) only adds joins
  and columns and is left out: every request here is one without \<open>expand\<close>.
\<close>

type_synonym where_object = "(string \<times> (string \<times> string) list) list"

record search_query =
  page :: int
  page_size :: int
  page_key :: "string option"
  order :: string
  where_param :: "where_object option"
  include_param :: "string option"
  exclude_param :: "string option"
  number_fields :: "string \<Rightarrow> numfilter"
  text_fields :: "string \<Rightarrow> string"

record ethscription_query = search_query +
  collection_id :: "string option"
  boolean_fields :: "string \<Rightarrow> bool"

record collection_query = search_query +
  verified :: "bool option"

section \<open>Filter compilation\<close>

text \<open>
  The number filters (ethscriptions: the loop over \<open>number\<close>, \<open>block_number\<close>,
  \<open>block_timestamp\<close>, \<open>transaction_index\<close>, \<open>updated_at\<close>; collections: \<open>supply\<close>).
  \<open>raw\<close> is \<open>searchParams.get(field)\<close>.
\<close>

definition number_value :: "numfilter \<Rightarrow> operand" where
  "number_value val = (case val of Plain n \<Rightarrow> Num n | OpValue _ v \<Rightarrow> Num v | OpRange _ _ _ \<Rightarrow> Filter val)"

definition number_op :: "numfilter \<Rightarrow> string option" where
  "number_op val = (case val of Plain _ \<Rightarrow> None | OpValue f _ \<Rightarrow> Some f | OpRange f _ _ \<Rightarrow> Some f)"

definition number_min :: "numfilter \<Rightarrow> operand" where
  "number_min val = (case val of OpRange _ lo _ \<Rightarrow> Num lo | _ \<Rightarrow> Undefined)"

definition number_max :: "numfilter \<Rightarrow> operand" where
  "number_max val = (case val of OpRange _ _ hi \<Rightarrow> Num hi | _ \<Rightarrow> Undefined)"

definition number_conditions :: "string \<Rightarrow> string option \<Rightarrow> numfilter \<Rightarrow> clause list" where
  "number_conditions field raw val =
     (let num = number_value val;
          f = (if (case raw of None \<Rightarrow> False | Some s \<Rightarrow> CHR '':'' \<in> set s)
               then number_op val else Some ''eq'')
      in if f = Some ''gt'' then [Op ''gt'' field num]
         else if f = Some ''lt'' then [Op ''lt'' field num]
         else if f = Some ''gte'' then [Op ''gte'' field num]
         else if f = Some ''lte'' then [Op ''lte'' field num]
         else if f = Some ''range''
           then [Op ''gte'' field (number_min val), Op ''lte'' field (number_max val)]
         else [Op ''eq'' field num])"

text \<open>
  The text filters: a value with \<open>*\<close> becomes a \<open>like\<close> clause on the value with every
  \<open>*\<close> replaced by \<open>%\<close>, any other value an \<open>eq\<close> clause.
\<close>

definition text_condition :: "string \<Rightarrow> string \<Rightarrow> clause" where
  "text_condition field v =
     (let val = (if CHR ''*'' \<in> set v then replaceAll (CHR ''*'') ''%'' v else v)
      in if CHR ''*'' \<in> set v then Op ''like'' field (Text val) else Op ''eq'' field (Text val))"

text \<open>The collections handler lowers the case of the \<open>slug\<close> filter first.\<close>

definition collections_text_condition :: "string \<Rightarrow> string \<Rightarrow> clause" where
  "collections_text_condition field v0 =
     (let val0 = (if CHR ''*'' \<in> set v0 then replaceAll (CHR ''*'') ''%'' v0 else v0);
          val = (if field = ''slug'' then toLowerCase val0 else val0);
          v = (if field = ''slug'' then toLowerCase v0 else v0)
      in if CHR ''*'' \<in> set v then Op ''like'' field (Text val) else Op ''eq'' field (Text val))"

text \<open>
  The tri-state filter on \<open>collection_id\<close>. The guard \<open>if (searchQuery.collection_id)\<close>
  passes for a non-empty string only.
\<close>

definition collection_id_conditions :: "string option \<Rightarrow> clause list" where
  "collection_id_conditions cid =
     (case cid of
        None \<Rightarrow> []
      | Some v \<Rightarrow>
          if v = [] then []
          else if v = ''true'' then [IsNotNull ''collection_id'']
          else if v = ''false'' \<or> v = ''null'' then [IsNull ''collection_id'']
          else [text_condition ''collection_id'' v])"

text \<open>The boolean filter of the collections handler: \<open>if (searchQuery.verified)\<close>.\<close>

definition verified_conditions :: "bool option \<Rightarrow> clause list" where
  "verified_conditions v =
     (case v of
        None \<Rightarrow> []
      | Some b \<Rightarrow> if b then [Op ''eq'' ''verified'' (Bool b)] else [])"

text \<open>
  The nested \<open>where\<close> form: for every field and every operator of its object, the
  value with \<open>*\<close> replaced by \<open>%\<close> is passed to \<open>orm[op]\<close>.
\<close>

definition where_value :: "string \<Rightarrow> string" where
  "where_value v = (if CHR ''*'' \<in> set v then replaceAll (CHR ''*'') ''%'' v else v)"

definition where_conds :: "where_object \<Rightarrow> clause list" where
  "where_conds w =
     concat (map (\<lambda>(key, spec). map (\<lambda>(f, v). Op f key (Text (where_value v))) spec) w)"

section \<open>Projection of result records\<close>

text \<open>
  Result records are JSON values; numbers are integers. An object is the list of its
  entries in the order of \<open>Object.entries\<close>, with pairwise different keys.
\<close>

datatype json =
    JNull
  | JBool bool
  | JNum int
  | JStr string
  | JArr "json list"
  | JObj "(string \<times> json) list"

subsection \<open>The regular expressions built from a pattern\<close>

text \<open>
  A pattern with a \<open>*\<close> is turned into the source of a regular expression by
  \<open>pattern.replace(/\./g, '\\.').replace(/\*/g, '.*')\<close> and tested, anchored by \<open>^\<close>
  and \<open>$\<close>, against the full path. The JavaScript engine is modelled on the
  expressions this produces from a pattern whose other characters are not special in
  a regular expression (\<open>plain_pattern\<close>): a sequence of escaped characters (\<open>\.\<close>),
  of \<open>.*\<close> and of literal characters. \<open>.\<close> matches every character but a line
  terminator.
\<close>

definition backslash :: char where
  "backslash = CHR 0x5C"



definition line_terminator :: "char \<Rightarrow> bool" where
  "line_terminator c = (c = CHR 0x0A \<or> c = CHR 0x0D)"

datatype regex_item = Lit char | AnyStar

fun regex_items :: "string \<Rightarrow> regex_item list" where
  "regex_items [] = []"
| "regex_items [c] = [Lit c]"
| "regex_items (c # d # cs) =
     (if c = backslash then Lit d # regex_items cs
      else if c = CHR ''.'' \<and> d = CHR ''*'' then AnyStar # regex_items cs
      else Lit c # regex_items (d # cs))"

fun regex_match :: "regex_item list \<Rightarrow> string \<Rightarrow> bool" where
  "regex_match [] s = (s = [])"
| "regex_match (Lit c # items) [] = False"
| "regex_match (Lit c # items) (x # xs) = (x = c \<and> regex_match items xs)"
| "regex_match (AnyStar # items) [] = regex_match items []"
| "regex_match (AnyStar # items) (x # xs) =
     (regex_match items (x # xs) \<or> (\<not> line_terminator x \<and> regex_match (AnyStar # items) xs))"

text \<open>\<open>new RegExp(`^${regexPattern}$`).test(fullPath)\<close>\<close>

definition regex_test :: "string \<Rightarrow> string \<Rightarrow> bool" where
  "regex_test regexPattern fullPath = regex_match (regex_items regexPattern) fullPath"

definition regexPattern :: "string \<Rightarrow> string" where
  "regexPattern pattern =
     replaceAll (CHR ''*'') ''.*'' (replaceAll (CHR ''.'') [backslash, CHR ''.''] pattern)"

subsection \<open>processObject\<close>

definition isExcluded :: "string list \<Rightarrow> string \<Rightarrow> bool" where
  "isExcluded exclude fullPath =
     list_ex (\<lambda>pattern.
        if CHR ''*'' \<in> set pattern then regex_test (regexPattern pattern) fullPath
        else fullPath = pattern \<or> pattern = fullPath @ ''.*'') exclude"

definition isIncluded :: "string list \<Rightarrow> string \<Rightarrow> bool" where
  "isIncluded include fullPath =
     list_ex (\<lambda>pattern.
        if CHR ''*'' \<in> set pattern then regex_test (regexPattern pattern) fullPath
        else fullPath = pattern) include"

definition shouldInclude :: "string list option \<Rightarrow> string list option \<Rightarrow> string \<Rightarrow> bool" where
  "shouldInclude include exclude fullPath =
     (let keep = True;
          keep = (case exclude of None \<Rightarrow> keep | Some ex \<Rightarrow> \<not> isExcluded ex fullPath);
          keep = (case include of None \<Rightarrow> keep | Some inc \<Rightarrow> if isIncluded inc fullPath then True else keep)
      in keep)"

definition fullPath :: "string \<Rightarrow> string \<Rightarrow> string" where
  "fullPath prefix key = (if prefix \<noteq> [] then prefix @ ''.'' @ key else key)"

text \<open>Decimal notation, for the keys of an array's entries and for cursors.\<close>

definition digit_char :: "nat \<Rightarrow> char" where
  "digit_char d = ''0123456789'' ! d"

function show_nat :: "nat \<Rightarrow> string" where
  "show_nat n = (if n < 10 then [digit_char n] else show_nat (n div 10) @ [digit_char (n mod 10)])"
  by pat_completeness auto
termination
  by (relation "measure (\<lambda>n. n)") auto

declare show_nat.simps [simp del]

definition show_int :: "int \<Rightarrow> string" where
  "show_int i = (if i < 0 then CHR ''-'' # show_nat (nat (- i)) else show_nat (nat i))"

text \<open>
  \<open>processObject(obj, prefix)\<close> returns a value that is not an object as it is. An
  array is an object whose entries are keyed by the indices, and the result is always
  a plain object. \<open>process_entries\<close> is the \<open>forEach\<close> over the entries of an object,
  \<open>process_items\<close> the one over the elements of an array from index \<open>i\<close> on.
\<close>

fun processObject :: "string list option \<Rightarrow> string list option \<Rightarrow> json \<Rightarrow> string \<Rightarrow> json"
  and process_entries ::
    "string list option \<Rightarrow> string list option \<Rightarrow> string \<Rightarrow> (string \<times> json) list \<Rightarrow> (string \<times> json) list"
  and process_items ::
    "string list option \<Rightarrow> string list option \<Rightarrow> string \<Rightarrow> nat \<Rightarrow> json list \<Rightarrow> (string \<times> json) list"
  where
  "processObject include exclude (JObj entries) prefix = JObj (process_entries include exclude prefix entries)"
| "processObject include exclude (JArr items) prefix = JObj (process_items include exclude prefix 0 items)"
| "processObject include exclude JNull prefix = JNull"
| "processObject include exclude (JBool b) prefix = JBool b"
| "processObject include exclude (JNum n) prefix = JNum n"
| "processObject include exclude (JStr s) prefix = JStr s"
| "process_entries include exclude prefix [] = []"
| "process_entries include exclude prefix ((key, v) # entries) =
     (if shouldInclude include exclude (fullPath prefix key)
      then (key, processObject include exclude v (fullPath prefix key)) # process_entries include exclude prefix entries
      else process_entries include exclude prefix entries)"
| "process_items include exclude prefix i [] = []"
| "process_items include exclude prefix i (v # items) =
     (if shouldInclude include exclude (fullPath prefix (show_nat i))
      then (show_nat i, processObject include exclude v (fullPath prefix (show_nat i)))
             # process_items include exclude prefix (Suc i) items
      else process_items include exclude prefix (Suc i) items)"

text \<open>
  The projection block of a handler: \<open>include\<close> and \<open>exclude\<close> are the parameters split
  at commas without the empty pieces, and the records are processed when one of the
  two is given.
\<close>

definition pattern_list :: "string option \<Rightarrow> string list option" where
  "pattern_list p = map_option (\<lambda>s. filter_Boolean (split (CHR '','') s)) p"

definition project :: "string option \<Rightarrow> string option \<Rightarrow> json list \<Rightarrow> json list" where
  "project include exclude filteredData =
     (if pattern_list include \<noteq> None \<or> pattern_list exclude \<noteq> None
      then map (\<lambda>item. processObject (pattern_list include) (pattern_list exclude) item []) filteredData
      else filteredData)"

subsection \<open>The glob match of the specification\<close>



section \<open>Cursors\<close>

text \<open>
  \<open>Number(s)\<close> on the strings that denote an integer in decimal notation (an optional
  sign and digits; the empty string is 0). Every other string is \<open>None\<close>: \<open>NaN\<close>, or a
  number in another notation, which the clauses above do not distinguish.
\<close>

definition is_digit :: "char \<Rightarrow> bool" where
  "is_digit c = (c \<in> set ''0123456789'')"

definition digit_value :: "char \<Rightarrow> nat" where
  "digit_value c = (of_char c :: nat) - 48"

definition digits_value :: "string \<Rightarrow> nat" where
  "digits_value s = foldl (\<lambda>a c. 10 * a + digit_value c) 0 s"

definition Number :: "string \<Rightarrow> int option" where
  "Number s =
     (if s = [] then Some 0
      else if list_all is_digit s then Some (int (digits_value s))
      else if hd s = CHR ''-'' \<and> tl s \<noteq> [] \<and> list_all is_digit (tl s) then Some (- int (digits_value (tl s)))
      else if hd s = CHR ''+'' \<and> tl s \<noteq> [] \<and> list_all is_digit (tl s) then Some (int (digits_value (tl s)))
      else None)"

text \<open>
  \<open>const [blockNumber, txIndex] = page_key.split('_').map(Number)\<close>: the first two
  components, \<open>undefined\<close> (here \<open>None\<close>) where there is none.
\<close>

definition component :: "int option list \<Rightarrow> nat \<Rightarrow> int option" where
  "component parts i = (if i < length parts then parts ! i else None)"

definition cursor_components :: "string \<Rightarrow> int option \<times> int option" where
  "cursor_components key =
     (let parts = map Number (split (CHR ''_'') key) in (component parts 0, component parts 1))"

definition cursor_condition :: "bool \<Rightarrow> string \<Rightarrow> clause" where
  "cursor_condition isAscending key =
     (let (blockNumber, txIndex) = cursor_components key
      in if isAscending then RowGt blockNumber txIndex else RowLt blockNumber txIndex)"

text \<open>A string, as a condition: true when it is there and not empty.\<close>

definition truthy :: "string option \<Rightarrow> bool" where
  "truthy s = (case s of None \<Rightarrow> False | Some t \<Rightarrow> t \<noteq> [])"

section \<open>Queries and the store\<close>

text \<open>
  A query of the builder: \<open>where\<close> assigns the one predicate of the query (a second
  call replaces the first), \<open>orderBy\<close> the direction of the handler's sort columns,
  \<open>limit\<close> and \<open>offset\<close> the window.
\<close>

datatype direction = Asc | Desc

record query =
  q_where :: "clause option"
  q_orderBy :: "direction option"
  q_limit :: "int option"
  q_offset :: "int option"

definition select_from :: query where
  "select_from = \<lparr>q_where = None, q_orderBy = None, q_limit = None, q_offset = None\<rparr>"

text \<open>
  The store is the rows of the table, in the order in which it keeps them, and its
  reading of a clause on a column. A conjunction holds when all its clauses do.
\<close>

record 'r store =
  table_rows :: "'r list"
  satisfies :: "clause \<Rightarrow> 'r \<Rightarrow> bool"

fun holds :: "(clause \<Rightarrow> 'r \<Rightarrow> bool) \<Rightarrow> clause \<Rightarrow> 'r \<Rightarrow> bool" where
  "holds atom (And cs) r = list_all (\<lambda>c. holds atom c r) cs"
| "holds atom (Op f c v) r = atom (Op f c v) r"
| "holds atom (IsNull c) r = atom (IsNull c) r"
| "holds atom (IsNotNull c) r = atom (IsNotNull c) r"
| "holds atom (RowGt a b) r = atom (RowGt a b) r"
| "holds atom (RowLt a b) r = atom (RowLt a b) r"

text \<open>
  Running a query: the rows that satisfy the predicate, sorted on the key of the
  handler's sort columns, each with the window aggregate \<open>COUNT(*) OVER()\<close> (the
  number of rows that satisfy the predicate), then cut by \<open>OFFSET\<close> and \<open>LIMIT\<close>. Rows
  with equal keys keep the order of the table; a negative limit is no limit.
\<close>

definition matching :: "(clause \<Rightarrow> 'r \<Rightarrow> bool) \<Rightarrow> 'r list \<Rightarrow> query \<Rightarrow> 'r list" where
  "matching atom rows q =
     (case q_where q of None \<Rightarrow> rows | Some c \<Rightarrow> filter (holds atom c) rows)"

definition sorted_rows :: "('r \<Rightarrow> 'k::linorder) \<Rightarrow> query \<Rightarrow> 'r list \<Rightarrow> 'r list" where
  "sorted_rows key q found =
     (case q_orderBy q of
        None \<Rightarrow> found
      | Some Asc \<Rightarrow> sort_key key found
      | Some Desc \<Rightarrow> rev (sort_key key found))"

definition window :: "query \<Rightarrow> 'r list \<Rightarrow> 'r list" where
  "window q ordered =
     (let skipped = (case q_offset q of None \<Rightarrow> ordered | Some n \<Rightarrow> drop (nat n) ordered)
      in case q_limit q of
           None \<Rightarrow> skipped
         | Some n \<Rightarrow> if n < 0 then skipped else take (nat n) skipped)"

definition execute ::
  "(clause \<Rightarrow> 'r \<Rightarrow> bool) \<Rightarrow> ('r \<Rightarrow> 'k::linorder) \<Rightarrow> 'r list \<Rightarrow> query \<Rightarrow> ('r \<times> int) list" where
  "execute atom key rows q =
     (let found = matching atom rows q;
          total_rows = int (length found)
      in map (\<lambda>r. (r, total_rows)) (window q (sorted_rows key q found)))"

section \<open>Pagination metadata\<close>

text \<open>
  The \<open>pagination\<close> object of a response, in its two shapes; a selector \<open>meta_x\<close> is
  the property \<open>x\<close>. \<open>items_left\<close> is absent from one of the ethscriptions handlers,
  and \<open>page_size\<close> is named \<open>limit\<close> in the offset shape of the other.
\<close>

datatype 'c pagination =
    Cursor_meta (meta_total: int) (meta_items_left: "int option") (meta_page_size: int)
      (meta_page_key: "'c option") (meta_has_more: bool)
  | Offset_meta (meta_total: int) (meta_page_size: int) (meta_pages: int) (meta_page: int)
      (meta_prev: "int option") (meta_next: "int option")
      (meta_page_key: "'c option") (meta_has_more: bool)

text \<open>
  \<open>Math.ceil(total / page_size)\<close> on integers, for a page size other than 0.
\<close>

definition ceil_div :: "int \<Rightarrow> int \<Rightarrow> int" where
  "ceil_div a b = - ((- a) div b)"

text \<open>\<open>Boolean(n)\<close> and \<open>n ? ... : ...\<close> for a number or \<open>null\<close>.\<close>

definition truthy_number :: "int option \<Rightarrow> bool" where
  "truthy_number n = (case n of None \<Rightarrow> False | Some k \<Rightarrow> k \<noteq> 0)"

definition has_next_page :: "int \<Rightarrow> int \<Rightarrow> int \<Rightarrow> int \<Rightarrow> int option" where
  "has_next_page total_rows offset psize pg = (if total_rows > offset + psize then Some (pg + 1) else None)"

definition offset_meta :: "int \<Rightarrow> int \<Rightarrow> int \<Rightarrow> int option \<Rightarrow> 'c option \<Rightarrow> 'c pagination" where
  "offset_meta total_rows psize pg has_next nextCursor =
     Offset_meta total_rows psize (ceil_div total_rows psize) pg
       (if pg > 1 then Some (pg - 1) else None) has_next nextCursor (truthy_number has_next)"

definition cursor_meta :: "bool \<Rightarrow> int \<Rightarrow> int \<Rightarrow> 'c option \<Rightarrow> 'c pagination" where
  "cursor_meta with_items_left total_rows psize nextCursor =
     (let left = total_rows - psize
      in Cursor_meta total_rows (if with_items_left then Some (if left < 0 then 0 else left) else None)
           psize nextCursor (left > 0))"

record 'c response =
  pagination :: "'c pagination"
  data :: "json list"
  status :: nat
  issued :: "query list"

section \<open>The ethscriptions listing\<close>

text \<open>
  A row of the table \<open>ethscriptions\<close>, with the columns the handlers select. The
  columns \<open>id\<close> and \<open>collection_id\<close> are \<open>eth_id\<close> and \<open>eth_collection_id\<close> here.
\<close>

record ethscription =
  eth_id :: string
  number :: "int option"
  block_number :: int
  block_timestamp :: int
  transaction_index :: int
  media_type :: string
  media_subtype :: string
  content_type :: string
  content_sha :: string
  is_esip0 :: bool
  is_esip3 :: bool
  is_esip4 :: bool
  is_esip6 :: bool
  is_esip8 :: bool
  creator :: string
  initial_owner :: string
  current_owner :: string
  previous_owner :: string
  updated_at :: "int option"
  eth_collection_id :: "string option"

definition json_int :: "int option \<Rightarrow> json" where
  "json_int n = (case n of None \<Rightarrow> JNull | Some k \<Rightarrow> JNum k)"

definition json_string :: "string option \<Rightarrow> json" where
  "json_string s = (case s of None \<Rightarrow> JNull | Some t \<Rightarrow> JStr t)"

definition ethscription_object :: "ethscription \<Rightarrow> json" where
  "ethscription_object r = JObj
     [(''id'', JStr (eth_id r)),
      (''number'', json_int (number r)),
      (''block_number'', JNum (block_number r)),
      (''block_timestamp'', JNum (block_timestamp r)),
      (''transaction_index'', JNum (transaction_index r)),
      (''media_type'', JStr (media_type r)),
      (''media_subtype'', JStr (media_subtype r)),
      (''content_type'', JStr (content_type r)),
      (''content_sha'', JStr (content_sha r)),
      (''is_esip0'', JBool (is_esip0 r)),
      (''is_esip3'', JBool (is_esip3 r)),
      (''is_esip4'', JBool (is_esip4 r)),
      (''is_esip6'', JBool (is_esip6 r)),
      (''is_esip8'', JBool (is_esip8 r)),
      (''creator'', JStr (creator r)),
      (''initial_owner'', JStr (initial_owner r)),
      (''current_owner'', JStr (current_owner r)),
      (''previous_owner'', JStr (previous_owner r)),
      (''updated_at'', json_int (updated_at r)),
      (''collection_id'', json_string (eth_collection_id r))]"

text \<open>
  The row value \<open>(block_number, transaction_index)\<close>, compared lexicographically. The
  store reads every other clause; the two row-value comparisons with integer
  components are read here.
\<close>

definition row_value :: "ethscription \<Rightarrow> int \<times> int" where
  "row_value r = (block_number r, transaction_index r)"

definition ethscriptions_atom :: "(clause \<Rightarrow> ethscription \<Rightarrow> bool) \<Rightarrow> clause \<Rightarrow> ethscription \<Rightarrow> bool" where
  "ethscriptions_atom sat c r =
     (case c of
        RowGt (Some a) (Some b) \<Rightarrow> (a, b) < row_value r
      | RowLt (Some a) (Some b) \<Rightarrow> row_value r < (a, b)
      | _ \<Rightarrow> sat c r)"

definition run_ethscriptions :: "ethscription store \<Rightarrow> query \<Rightarrow> (ethscription \<times> int) list" where
  "run_ethscriptions st q =
     execute (ethscriptions_atom (satisfies st)) row_value (table_rows st) q"

text \<open>The filters of the request, in the order of the handler's loops.\<close>

definition ethscriptions_conditions :: "searchParams \<Rightarrow> 'a ethscription_query_scheme \<Rightarrow> clause list" where
  "ethscriptions_conditions sp sq =
     concat (map (\<lambda>field. if has sp field
                            then number_conditions field (get sp field) (number_fields sq field)
                            else [])
       [''number'', ''block_number'', ''block_timestamp'', ''transaction_index'', ''updated_at''])
     @ collection_id_conditions (collection_id sq)
     @ concat (map (\<lambda>field. if has sp field then [text_condition field (text_fields sq field)] else [])
       [''id'', ''media_type'', ''media_subtype'', ''content_type'', ''content_sha'', ''creator'',
        ''initial_owner'', ''current_owner'', ''previous_owner''])
     @ concat (map (\<lambda>field. if has sp field then [Op ''eq'' field (Bool (boolean_fields sq field))] else [])
       [''is_esip0'', ''is_esip3'', ''is_esip4'', ''is_esip6'', ''is_esip8''])"

text \<open>
  The query of the two ethscriptions handlers, statement by statement: the first
  \<open>query.where\<close>, the cursor condition pushed after it, the second \<open>query.where\<close> (on
  the conditions when there is no \<open>where\<close> parameter, on the clauses of the \<open>where\<close>
  object otherwise), the order, the limit, and the offset outside cursor mode.
\<close>

definition ethscriptions_query :: "searchParams \<Rightarrow> 'a ethscription_query_scheme \<Rightarrow> query" where
  "ethscriptions_query sp sq =
     (let offset = (if truthy (page_key sq) then 0 else (page sq - 1) * page_size sq);
          query = select_from;
          conditions = ethscriptions_conditions sp sq;
          query = (if conditions \<noteq> [] then query\<lparr>q_where := and_clauses conditions\<rparr> else query);
          isCursor = truthy (page_key sq);
          isAscending = (order sq = ''asc'');
          conditions = (if isCursor then conditions @ [cursor_condition isAscending (the (page_key sq))]
                        else conditions);
          query = (if where_param sq = None \<and> conditions \<noteq> []
                   then query\<lparr>q_where := and_clauses conditions\<rparr>
                   else (case where_param sq of
                           None \<Rightarrow> query
                         | Some w \<Rightarrow> query\<lparr>q_where := and_clauses (where_conds w)\<rparr>));
          query = query\<lparr>q_orderBy := Some (if isAscending then Asc else Desc)\<rparr>;
          query = query\<lparr>q_limit := Some (page_size sq)\<rparr>;
          query = (if \<not> isCursor then query\<lparr>q_offset := Some offset\<rparr> else query)
      in query)"

text \<open>
  The next cursor, from the last row of the page:
  \<open>`${results.at(-1)?.block_number}_${results.at(-1)?.transaction_index}`\<close>.
\<close>

definition next_cursor :: "(ethscription \<times> int) list \<Rightarrow> string" where
  "next_cursor results =
     (if results = [] then ''undefined_undefined''
      else show_int (block_number (fst (last results))) @ ''_''
             @ show_int (transaction_index (fst (last results))))"


text \<open>\<open>nextCursor || null\<close>\<close>

definition or_null :: "string option \<Rightarrow> string option" where
  "or_null s = (if truthy s then s else None)"

text \<open>
  The handler that selects the window aggregate with the page and projects the
  records itself (\<open>src/unnamed/part_002\<close>). Its one query is the page query.
\<close>

definition GET_part_002 :: "ethscription store \<Rightarrow> searchParams \<Rightarrow> 'a ethscription_query_scheme \<Rightarrow> string response" where
  "GET_part_002 st sp sq =
     (let offset = (if truthy (page_key sq) then 0 else (page sq - 1) * page_size sq);
          query = ethscriptions_query sp sq;
          isCursor = truthy (page_key sq);
          results = run_ethscriptions st query;
          total_rows = (case results of [] \<Rightarrow> 0 | (r, t) # _ \<Rightarrow> t);
          has_next = has_next_page total_rows offset (page_size sq) (page sq);
          nextCursor = (if truthy_number has_next then Some (next_cursor results) else None);
          filteredData = project (include_param sq) (exclude_param sq)
                           (map (\<lambda>(r, t). ethscription_object r) results)
      in \<lparr>pagination =
            (if isCursor then cursor_meta True total_rows (page_size sq) (or_null nextCursor)
             else offset_meta total_rows (page_size sq) (page sq) has_next (or_null nextCursor)),
          data = filteredData,
          status = 200,
          issued = [query]\<rparr>)"

text \<open>
  The handler that counts first (\<open>src/unnamed/part_001\<close>): a query of its own over the
  whole table gives \<open>total\<close>, and destructuring its first row throws a \<open>TypeError\<close>
  when the table is empty. The projection is \<open>withIncludesExcludes\<close>.
\<close>

datatype error = TypeError

text \<open>
  Modelled from the spec: \<open>withIncludesExcludes\<close> (imported from \<open>utils/validation\<close>,
  which is not part of the sources) is the projection engine of section 4.5 applied
  to every record, the block that the other handler writes out.
\<close>

definition withIncludesExcludes :: "json list \<Rightarrow> 'a search_query_scheme \<Rightarrow> json list" where
  "withIncludesExcludes results sq = project (include_param sq) (exclude_param sq) results"

definition GET_part_001 :: "ethscription store \<Rightarrow> searchParams \<Rightarrow> 'a ethscription_query_scheme \<Rightarrow> error + string response" where
  "GET_part_001 st sp sq =
     (let offset = (if truthy (page_key sq) then 0 else (page sq - 1) * page_size sq)
      in case run_ethscriptions st select_from of
           [] \<Rightarrow> Inl TypeError
         | (r, total_rows) # _ \<Rightarrow>
             (let query = ethscriptions_query sp sq;
                  isCursor = truthy (page_key sq);
                  results = run_ethscriptions st query;
                  has_next = has_next_page total_rows offset (page_size sq) (page sq);
                  nextCursor = (if truthy_number has_next then Some (next_cursor results) else None)
              in Inr \<lparr>pagination =
                        (if isCursor then cursor_meta False total_rows (page_size sq) (or_null nextCursor)
                         else offset_meta total_rows (page_size sq) (page sq) has_next (or_null nextCursor)),
                      data = withIncludesExcludes (map (\<lambda>(r, t). ethscription_object r) results) sq,
                      status = 200,
                      issued = [select_from, query]\<rparr>))"

section \<open>The collections listing\<close>

text \<open>
  A row of the table \<open>collections\<close>, with the columns the handler selects, in the
  order of its selection. The declaration of the table is not part of the sources:
  the sort column \<open>created_at\<close> is an integer, \<open>supply\<close> a number, \<open>verified\<close> a boolean,
  the columns with a text filter are strings, and \<open>links\<close>, \<open>team\<close> and \<open>royalties\<close> are
  JSON values. The columns \<open>id\<close>, \<open>supply\<close> and \<open>verified\<close> are \<open>coll_id\<close>, \<open>coll_supply\<close> and
  \<open>coll_verified\<close> here.
\<close>

record collection =
  created_at :: int
  coll_id :: string
  coll_supply :: int
  slug :: string
  name :: string
  description :: string
  logo :: string
  banner :: string
  links :: json
  team :: json
  royalties :: json
  coll_verified :: bool

definition collection_object :: "collection \<Rightarrow> json" where
  "collection_object r = JObj
     [(''created_at'', JNum (created_at r)),
      (''id'', JStr (coll_id r)),
      (''supply'', JNum (coll_supply r)),
      (''slug'', JStr (slug r)),
      (''name'', JStr (name r)),
      (''description'', JStr (description r)),
      (''logo'', JStr (logo r)),
      (''banner'', JStr (banner r)),
      (''links'', links r),
      (''team'', team r),
      (''royalties'', royalties r),
      (''verified'', JBool (coll_verified r))]"

definition run_collections :: "collection store \<Rightarrow> query \<Rightarrow> (collection \<times> int) list" where
  "run_collections st q = execute (satisfies st) created_at (table_rows st) q"

definition collections_conditions :: "searchParams \<Rightarrow> 'a collection_query_scheme \<Rightarrow> clause list" where
  "collections_conditions sp sq =
     concat (map (\<lambda>field. if has sp field then [collections_text_condition field (text_fields sq field)] else [])
       [''id'', ''slug'', ''name'', ''description'', ''logo'', ''banner''])
     @ (if has sp ''supply''
        then number_conditions ''supply'' (get sp ''supply'') (number_fields sq ''supply'')
        else [])
     @ verified_conditions (verified sq)"

text \<open>
  The query of the collections handler. With a \<open>where\<close> parameter it calls
  \<open>query.where\<close> once for every clause of the \<open>where\<close> object.
\<close>

definition collections_query :: "searchParams \<Rightarrow> 'a collection_query_scheme \<Rightarrow> query" where
  "collections_query sp sq =
     (let offset = (if truthy (page_key sq) then 0 else (page sq - 1) * page_size sq);
          query = select_from;
          conditions = collections_conditions sp sq;
          isAscending = (order sq = ''asc'');
          conditions = (if truthy (page_key sq)
                        then conditions @ [Op (if isAscending then ''gt'' else ''lt'') ''created_at''
                                             (Text (the (page_key sq)))]
                        else conditions);
          query = (if where_param sq = None \<and> conditions \<noteq> []
                   then query\<lparr>q_where := and_clauses conditions\<rparr>
                   else (case where_param sq of
                           None \<Rightarrow> query
                         | Some w \<Rightarrow> foldl (\<lambda>q c. q\<lparr>q_where := Some c\<rparr>) query (where_conds w)));
          query = query\<lparr>q_orderBy := Some (if isAscending then Asc else Desc)\<rparr>;
          query = query\<lparr>q_limit := Some (page_size sq)\<rparr>;
          query = (if \<not> truthy (page_key sq) then query\<lparr>q_offset := Some offset\<rparr> else query)
      in query)"

definition GET_collections :: "collection store \<Rightarrow> searchParams \<Rightarrow> 'a collection_query_scheme \<Rightarrow> int response" where
  "GET_collections st sp sq =
     (let offset = (if truthy (page_key sq) then 0 else (page sq - 1) * page_size sq);
          query = collections_query sp sq;
          res = run_collections st query;
          results = map (\<lambda>(r, t). collection_object r) res;
          total_rows = (case res of [] \<Rightarrow> 0 | (r, t) # _ \<Rightarrow> t);
          has_next = has_next_page total_rows offset (page_size sq) (page sq);
          nextCursor = (if truthy_number has_next
                        then (if res = [] then None else Some (created_at (fst (last res))))
                        else None);
          nextCursor = (if truthy_number nextCursor then nextCursor else None)
      in \<lparr>pagination =
            (if truthy (page_key sq) then cursor_meta True total_rows (page_size sq) nextCursor
             else offset_meta total_rows (page_size sq) (page sq) has_next nextCursor),
          data = withIncludesExcludes results sq,
          status = 200,
          issued = [query]\<rparr>)"

section \<open>Following the cursor\<close>




section \<open>Validation of the where form\<close>

text \<open>
  Modelled from the spec: the validation in front of a handler (\<open>withValidation\<close> and
  the parameter schemas of \<open>utils/params-validation\<close>, which are not part of the
  sources). Sections 4.2 and 7 of the specification: the operators of a filter are
  \<open>eq\<close>, \<open>gt\<close>, \<open>lt\<close>, \<open>gte\<close>, \<open>lte\<close> and \<open>like\<close>; an operator of the \<open>where\<close> form outside
  them is a validation error that names the field and the operator, found before the
  store is reached.
\<close>

definition recognized_operators :: "string list" where
  "recognized_operators = [''eq'', ''gt'', ''lt'', ''gte'', ''lte'', ''like'']"

record issue =
  issue_code :: string
  issue_path :: "string list"

definition where_issues :: "where_object \<Rightarrow> issue list" where
  "where_issues w =
     concat (map (\<lambda>(field, spec).
       concat (map (\<lambda>(f, v). if f \<in> set recognized_operators then []
                               else [\<lparr>issue_code = ''invalid_operator'', issue_path = [''where'', field, f]\<rparr>])
               spec)) w)"

datatype 'a validated = ValidationError "issue list" | Handled 'a

definition withValidation :: "('a search_query_scheme \<Rightarrow> 'b) \<Rightarrow> 'a search_query_scheme \<Rightarrow> 'b validated" where
  "withValidation handler sq =
     (case where_param sq of
        None \<Rightarrow> Handled (handler sq)
      | Some w \<Rightarrow> if where_issues w = [] then Handled (handler sq) else ValidationError (where_issues w))"

section \<open>Example requests and stores\<close>

text \<open>
  A request for the first page of two ethscriptions in ascending order without any
  filter, a row with a given id and row value, and a store that holds given rows and
  reads every clause on a column as true.
\<close>

definition example_query :: ethscription_query where
  "example_query =
     \<lparr>page = 1, page_size = 2, page_key = None, order = ''asc'', where_param = None,
      include_param = None, exclude_param = None,
      number_fields = (\<lambda>field. Plain 0), text_fields = (\<lambda>field. []),
      collection_id = None, boolean_fields = (\<lambda>field. False)\<rparr>"

definition example_row :: "string \<Rightarrow> int \<Rightarrow> int \<Rightarrow> ethscription" where
  "example_row i b t =
     \<lparr>eth_id = i, number = None, block_number = b, block_timestamp = 0,
      transaction_index = t, media_type = ''text'', media_subtype = ''plain'',
      content_type = ''text/plain'', content_sha = ''0x00'',
      is_esip0 = False, is_esip3 = False, is_esip4 = False, is_esip6 = False, is_esip8 = False,
      creator = ''0xa'', initial_owner = ''0xa'', current_owner = ''0xa'', previous_owner = ''0xa'',
      updated_at = None, eth_collection_id = None\<rparr>"

definition example_store :: "ethscription list \<Rightarrow> ethscription store" where
  "example_store rows = \<lparr>table_rows = rows, satisfies = (\<lambda>c r. True)\<rparr>"

text \<open>
  The same for collections; this store reads the clause \<open>eq(verified, b)\<close> as the
  comparison of the column with \<open>b\<close>.
\<close>

definition example_collection_query :: collection_query where
  "example_collection_query =
     \<lparr>page = 1, page_size = 2, page_key = None, order = ''asc'', where_param = None,
      include_param = None, exclude_param = None,
      number_fields = (\<lambda>field. Plain 0), text_fields = (\<lambda>field. []),
      verified = None\<rparr>"

definition example_collection :: "string \<Rightarrow> int \<Rightarrow> bool \<Rightarrow> collection" where
  "example_collection i c v =
     \<lparr>created_at = c, coll_id = i, coll_supply = 0, slug = i, name = i, description = [],
      logo = [], banner = [], links = JNull, team = JNull, royalties = JNull, coll_verified = v\<rparr>"

definition example_collection_store :: "collection list \<Rightarrow> collection store" where
  "example_collection_store rows =
     \<lparr>table_rows = rows,
      satisfies = (\<lambda>c r. case c of Op f col (Bool b) \<Rightarrow> (if f = ''eq'' \<and> col = ''verified'' then coll_verified r = b else True)
                            | _ \<Rightarrow> True)\<rparr>"

section \<open>Facts about the string functions\<close>

lemma replaceAll_star_free: "CHR ''*'' \<notin> set (replaceAll (CHR ''*'') ''%'' v)"
  by (induction v) (auto simp: replaceAll_def)

lemma replaceAll_char: "replaceAll c [d] s = map (\<lambda>x. if x = c then d else x) s"
  by (induction s) (auto simp: replaceAll_def)







section \<open>The queries in closed form\<close>

text \<open>
  What the statements of a handler leave in the query: the predicate is that of the
  last \<open>query.where\<close>, and no offset is set in cursor mode.
\<close>

lemma ethscriptions_query_eq:
  "ethscriptions_query sp sq =
     \<lparr>q_where = (if where_param sq = None
                 then and_clauses (ethscriptions_conditions sp sq
                     @ (if truthy (page_key sq) then [cursor_condition (order sq = ''asc'') (the (page_key sq))] else []))
                 else and_clauses (where_conds (the (where_param sq)))),
      q_orderBy = Some (if order sq = ''asc'' then Asc else Desc),
      q_limit = Some (page_size sq),
      q_offset = (if truthy (page_key sq) then None else Some ((page sq - 1) * page_size sq))\<rparr>"
  by (cases "where_param sq") (simp_all add: ethscriptions_query_def Let_def select_from_def and_clauses_def)

lemma foldl_where: "foldl (\<lambda>q c. q\<lparr>q_where := Some c\<rparr>) q cs = (if cs = [] then q else q\<lparr>q_where := Some (last cs)\<rparr>)"
  by (induction cs arbitrary: q) auto

lemma collections_query_eq:
  "collections_query sp sq =
     \<lparr>q_where = (if where_param sq = None
                 then and_clauses (collections_conditions sp sq
                     @ (if truthy (page_key sq)
                        then [Op (if order sq = ''asc'' then ''gt'' else ''lt'') ''created_at'' (Text (the (page_key sq)))]
                        else []))
                 else if where_conds (the (where_param sq)) = [] then None
                 else Some (last (where_conds (the (where_param sq))))),
      q_orderBy = Some (if order sq = ''asc'' then Asc else Desc),
      q_limit = Some (page_size sq),
      q_offset = (if truthy (page_key sq) then None else Some ((page sq - 1) * page_size sq))\<rparr>"
  by (cases "where_param sq")
    (simp_all add: collections_query_def Let_def select_from_def and_clauses_def foldl_where)



section \<open>Evaluation\<close>

lemmas example_defs = example_query_def example_store_def example_row_def
  example_collection_query_def example_collection_store_def example_collection_def

lemmas run_defs = run_ethscriptions_def run_collections_def execute_def matching_def
  sorted_rows_def window_def
  ethscriptions_conditions_def collections_conditions_def has_def get_def truthy_def truthy_number_def
  has_next_page_def offset_meta_def cursor_meta_def or_null_def next_cursor_def
  collection_id_conditions_def verified_conditions_def and_clauses_def row_value_def
  project_def pattern_list_def withIncludesExcludes_def ceil_div_def


section \<open>Offset mode\<close>



section \<open>The tri-state filter\<close>

lemma collection_id_in_conditions:
  "set (collection_id_conditions (collection_id sq)) \<subseteq> set (ethscriptions_conditions sp sq)"
  unfolding ethscriptions_conditions_def by (simp only: set_append) blast

text \<open>
  Claim C7. The filter on \<open>collection_id\<close>: \<open>"true"\<close> compiles to \<open>IS NOT NULL\<close>,
  \<open>"false"\<close> and \<open>"null"\<close> compile to \<open>IS NULL\<close>, and every other value that filters
  (the handler takes an absent or empty value as no filter) compiles to \<open>eq\<close> on the
  value, or to \<open>like\<close> on the value with \<open>*\<close> replaced by \<open>%\<close> when it has a \<open>*\<close>. The
  clauses are among the conditions of the request.
\<close>

theorem collection_id_tri_state:
  "collection_id_conditions (Some ''true'') = [IsNotNull ''collection_id'']
   \<and> collection_id_conditions (Some ''false'') = [IsNull ''collection_id'']
   \<and> collection_id_conditions (Some ''null'') = [IsNull ''collection_id'']
   \<and> (v \<noteq> [] \<and> v \<noteq> ''true'' \<and> v \<noteq> ''false'' \<and> v \<noteq> ''null'' \<longrightarrow>
        collection_id_conditions (Some v) =
          [if CHR ''*'' \<in> set v then Op ''like'' ''collection_id'' (Text (replaceAll (CHR ''*'') ''%'' v))
           else Op ''eq'' ''collection_id'' (Text v)])
   \<and> collection_id_conditions None = [] \<and> collection_id_conditions (Some []) = []
   \<and> set (collection_id_conditions (collection_id sq)) \<subseteq> set (ethscriptions_conditions sp sq)"
  using collection_id_in_conditions [of sq sp]
  by (simp add: collection_id_conditions_def text_condition_def)

theorem collection_id_tri_state_witness:
  "collection_id_conditions (Some ''0xab*'') = [Op ''like'' ''collection_id'' (Text ''0xab%'')]
   \<and> collection_id_conditions (Some ''0xab'') = [Op ''eq'' ''collection_id'' (Text ''0xab'')]"
  using collection_id_tri_state [of "''0xab*''" example_query "[]"]
    collection_id_tri_state [of "''0xab''" example_query "[]"]
  by (simp add: replaceAll_def)


section \<open>The boolean filter of collections\<close>

lemma verified_conditions_falsy:
  "collections_conditions sp (sq\<lparr>verified := Some False\<rparr>) = collections_conditions sp (sq\<lparr>verified := None\<rparr>)"
  by (simp add: verified_conditions_def collections_conditions_def)

text \<open>
  Claim C10. The \<open>verified\<close> filter of the collections listing is applied only when
  its value is truthy: \<open>false\<close> contributes no clause, so that the query and the
  response of a request for \<open>verified = false\<close> are those of the request without the
  parameter, unverified and verified rows alike.
\<close>

theorem verified_filter_only_when_truthy:
  "verified_conditions (Some False) = []
   \<and> verified_conditions None = []
   \<and> verified_conditions (Some True) = [Op ''eq'' ''verified'' (Bool True)]
   \<and> collections_query sp (sq\<lparr>verified := Some False\<rparr>) = collections_query sp (sq\<lparr>verified := None\<rparr>)
   \<and> GET_collections st sp (sq\<lparr>verified := Some False\<rparr>) = GET_collections st sp (sq\<lparr>verified := None\<rparr>)"
  by (simp add: verified_conditions_def GET_collections_def collections_query_eq
      verified_conditions_falsy withIncludesExcludes_def)

theorem verified_filter_only_when_truthy_witness:
  "map (\<lambda>(r, t). coll_verified r)
     (run_collections (example_collection_store [example_collection ''a'' 1 True, example_collection ''b'' 2 False])
        (collections_query [(''verified'', ''false'')] (example_collection_query\<lparr>verified := Some False\<rparr>)))
   = [True, False]
   \<and> map (\<lambda>(r, t). coll_verified r)
     (run_collections (example_collection_store [example_collection ''a'' 1 True, example_collection ''b'' 2 False])
        (collections_query [(''verified'', ''true'')] (example_collection_query\<lparr>verified := Some True\<rparr>)))
   = [True]"
  using verified_filter_only_when_truthy [of "[(''verified'', ''false'')]" example_collection_query
      "example_collection_store [example_collection ''a'' 1 True, example_collection ''b'' 2 False]"]
  by (simp add: example_defs run_defs collections_query_eq)

section \<open>Wildcards\<close>

lemma map_star_id:
  "CHR ''*'' \<notin> set v \<Longrightarrow> map (\<lambda>c. if c = CHR ''*'' then CHR ''%'' else c) v = v"
  by (induction v) auto

lemma where_value_map: "where_value v = map (\<lambda>c. if c = CHR ''*'' then CHR ''%'' else c) v"
  by (simp add: where_value_def replaceAll_char map_star_id)

lemma filter_clause_in_loop:
  "has sp field \<Longrightarrow> field \<in> set names \<Longrightarrow>
   f field \<in> set (concat (map (\<lambda>field. if has sp field then [f field] else []) names))"
  by (induction names) auto

lemma text_condition_in_conditions:
  assumes "has sp field"
    and "field \<in> set [''id'', ''media_type'', ''media_subtype'', ''content_type'', ''content_sha'',
           ''creator'', ''initial_owner'', ''current_owner'', ''previous_owner'']"
  shows "text_condition field (text_fields sq field) \<in> set (ethscriptions_conditions sp sq)"
  unfolding ethscriptions_conditions_def set_append
  using filter_clause_in_loop [OF assms, of "\<lambda>field. text_condition field (text_fields sq field)"]
  by blast

lemma collections_text_condition_in_conditions:
  assumes "has sp field"
    and "field \<in> set [''id'', ''slug'', ''name'', ''description'', ''logo'', ''banner'']"
  shows "collections_text_condition field (text_fields sq field) \<in> set (collections_conditions sp sq)"
  unfolding collections_conditions_def set_append
  using filter_clause_in_loop [OF assms, of "\<lambda>field. collections_text_condition field (text_fields sq field)"]
  by blast

lemma toLowerCase_char_star: "toLowerCase_char c = CHR ''*'' \<longleftrightarrow> c = CHR ''*''"
proof (cases "map_of (zip ''ABCDEFGHIJKLMNOPQRSTUVWXYZ'' ''abcdefghijklmnopqrstuvwxyz'') c")
  case None
  then show ?thesis by (simp add: toLowerCase_char_def)
next
  case (Some l)
  then have "(c, l) \<in> set (zip ''ABCDEFGHIJKLMNOPQRSTUVWXYZ'' ''abcdefghijklmnopqrstuvwxyz'')"
    by (rule map_of_SomeD)
  then have "c \<in> set ''ABCDEFGHIJKLMNOPQRSTUVWXYZ''" and "l \<in> set ''abcdefghijklmnopqrstuvwxyz''"
    by (auto dest: set_zip_leftD set_zip_rightD)
  moreover have "CHR ''*'' \<notin> set ''ABCDEFGHIJKLMNOPQRSTUVWXYZ''"
    and "CHR ''*'' \<notin> set ''abcdefghijklmnopqrstuvwxyz''"
    by simp_all
  ultimately have "c \<noteq> CHR ''*''" and "l \<noteq> CHR ''*''"
    by blast+
  with Some show ?thesis by (simp add: toLowerCase_char_def)
qed

lemma toLowerCase_star: "(CHR ''*'' \<in> set (toLowerCase v)) = (CHR ''*'' \<in> set v)"
proof -
  have "CHR ''*'' \<in> set (toLowerCase v) \<longleftrightarrow> (\<exists>x\<in>set v. toLowerCase_char x = CHR ''*'')"
    unfolding toLowerCase_def set_map by (rule iffI; force)
  also have "\<dots> \<longleftrightarrow> (\<exists>x\<in>set v. x = CHR ''*'')"
    by (simp only: toLowerCase_char_star)
  finally show ?thesis by blast
qed

text \<open>
  Claim C6, as the handlers have it. A top-level text filter whose value has a \<open>*\<close>
  compiles to a \<open>like\<close> clause on the value with every \<open>*\<close> replaced by \<open>%\<close> (in lower
  case for the \<open>slug\<close> of a collection), and a value without \<open>*\<close> to an \<open>eq\<close> clause;
  the clause is among the conditions of a request that has the parameter. In the
  \<open>where\<close> form the \<open>*\<close> is replaced in the same way, and the clause is the call of the
  operator that the request names.
\<close>

theorem wildcard_forces_like:
  "(CHR ''*'' \<in> set v \<longrightarrow>
      text_condition field v = Op ''like'' field (Text (map (\<lambda>c. if c = CHR ''*'' then CHR ''%'' else c) v))
      \<and> collections_text_condition field v =
          Op ''like'' field (Text (let val = map (\<lambda>c. if c = CHR ''*'' then CHR ''%'' else c) v
                                   in if field = ''slug'' then toLowerCase val else val)))
   \<and> (CHR ''*'' \<notin> set v \<longrightarrow>
      text_condition field v = Op ''eq'' field (Text v)
      \<and> collections_text_condition field v = Op ''eq'' field (Text (if field = ''slug'' then toLowerCase v else v)))
   \<and> (has sp field \<and> field \<in> set [''id'', ''media_type'', ''media_subtype'', ''content_type'',
          ''content_sha'', ''creator'', ''initial_owner'', ''current_owner'', ''previous_owner''] \<longrightarrow>
        text_condition field (text_fields sq field) \<in> set (ethscriptions_conditions sp sq))
   \<and> (has sp field \<and> field \<in> set [''id'', ''slug'', ''name'', ''description'', ''logo'', ''banner''] \<longrightarrow>
        collections_text_condition field (text_fields cq field) \<in> set (collections_conditions sp cq))
   \<and> where_conds [(field, [(f, v)])] = [Op f field (Text (map (\<lambda>c. if c = CHR ''*'' then CHR ''%'' else c) v))]"
proof -
  have "CHR ''*'' \<in> set v \<longrightarrow>
      text_condition field v = Op ''like'' field (Text (map (\<lambda>c. if c = CHR ''*'' then CHR ''%'' else c) v))
      \<and> collections_text_condition field v =
          Op ''like'' field (Text (let val = map (\<lambda>c. if c = CHR ''*'' then CHR ''%'' else c) v
                                   in if field = ''slug'' then toLowerCase val else val))"
    by (simp add: text_condition_def collections_text_condition_def replaceAll_char toLowerCase_star)
  moreover have "CHR ''*'' \<notin> set v \<longrightarrow>
      text_condition field v = Op ''eq'' field (Text v)
      \<and> collections_text_condition field v = Op ''eq'' field (Text (if field = ''slug'' then toLowerCase v else v))"
    by (simp add: text_condition_def collections_text_condition_def toLowerCase_star)
  moreover have "has sp field \<and> field \<in> set [''id'', ''media_type'', ''media_subtype'', ''content_type'',
          ''content_sha'', ''creator'', ''initial_owner'', ''current_owner'', ''previous_owner''] \<longrightarrow>
        text_condition field (text_fields sq field) \<in> set (ethscriptions_conditions sp sq)"
  proof (intro impI, elim conjE)
    assume "has sp field" and "field \<in> set [''id'', ''media_type'', ''media_subtype'', ''content_type'',
          ''content_sha'', ''creator'', ''initial_owner'', ''current_owner'', ''previous_owner'']"
    then show "text_condition field (text_fields sq field) \<in> set (ethscriptions_conditions sp sq)"
      by (rule text_condition_in_conditions)
  qed
  moreover have "has sp field \<and> field \<in> set [''id'', ''slug'', ''name'', ''description'', ''logo'', ''banner''] \<longrightarrow>
        collections_text_condition field (text_fields cq field) \<in> set (collections_conditions sp cq)"
  proof (intro impI, elim conjE)
    assume "has sp field" and "field \<in> set [''id'', ''slug'', ''name'', ''description'', ''logo'', ''banner'']"
    then show "collections_text_condition field (text_fields cq field) \<in> set (collections_conditions sp cq)"
      by (rule collections_text_condition_in_conditions)
  qed
  moreover have "where_conds [(field, [(f, v)])] = [Op f field (Text (map (\<lambda>c. if c = CHR ''*'' then CHR ''%'' else c) v))]"
    by (simp add: where_conds_def where_value_map)
  ultimately show ?thesis
    by (intro conjI)
qed

theorem wildcard_forces_like_witness:
  "text_condition ''content_sha'' ''0xF591*'' = Op ''like'' ''content_sha'' (Text ''0xF591%'')
   \<and> text_condition ''content_sha'' ''0xF591'' = Op ''eq'' ''content_sha'' (Text ''0xF591'')
   \<and> collections_text_condition ''slug'' ''Ab*'' = Op ''like'' ''slug'' (Text ''ab%'')
   \<and> text_condition ''content_sha'' ''0xF591*''
        \<in> set (ethscriptions_conditions [(''content_sha'', ''0xF591*'')]
              (example_query\<lparr>text_fields := (\<lambda>field. ''0xF591*'')\<rparr>))"
proof -
  note star = wildcard_forces_like [of "''0xF591*''" "''content_sha''" "[(''content_sha'', ''0xF591*'')]"
        "example_query\<lparr>text_fields := (\<lambda>field. ''0xF591*'')\<rparr>" example_collection_query "''like''"]
  have "text_condition ''content_sha'' ''0xF591*'' = Op ''like'' ''content_sha'' (Text ''0xF591%'')"
    using star by simp
  moreover have "text_condition ''content_sha'' ''0xF591'' = Op ''eq'' ''content_sha'' (Text ''0xF591'')"
    using wildcard_forces_like [of "''0xF591''" "''content_sha''" "[]" example_query example_collection_query "''eq''"]
    by simp
  moreover have "collections_text_condition ''slug'' ''Ab*'' = Op ''like'' ''slug'' (Text ''ab%'')"
    using wildcard_forces_like [of "''Ab*''" "''slug''" "[]" example_query example_collection_query "''eq''"]
    by (simp add: toLowerCase_def toLowerCase_char_def)
  moreover have "text_condition ''content_sha'' ''0xF591*''
        \<in> set (ethscriptions_conditions [(''content_sha'', ''0xF591*'')]
              (example_query\<lparr>text_fields := (\<lambda>field. ''0xF591*'')\<rparr>))"
    using star [THEN conjunct2, THEN conjunct2, THEN conjunct1]
    by (simp add: has_def)
  ultimately show ?thesis
    by (intro conjI)
qed

text \<open>
  The claim as the specification states it (a \<open>like\<close> clause whatever the operator)
  fails in the \<open>where\<close> form: \<open>where[content_sha][eq]=0xF591*\<close> is the clause
  \<open>eq(content_sha, '0xF591%')\<close>.
\<close>

theorem wildcard_where_form_counterexample:
  "q_where (ethscriptions_query []
      (example_query\<lparr>where_param := Some [(''content_sha'', [(''eq'', ''0xF591*'')])]\<rparr>))
   = Some (And [Op ''eq'' ''content_sha'' (Text ''0xF591%'')])"
  by (simp add: ethscriptions_query_eq example_query_def where_conds_def where_value_def
      replaceAll_def and_clauses_def)

section \<open>The where form and the other filters\<close>




section \<open>Unknown operators\<close>

lemma where_issues_member:
  assumes "(field, spec) \<in> set w" and "(f, v) \<in> set spec" and "f \<notin> set recognized_operators"
  shows "\<lparr>issue_code = ''invalid_operator'', issue_path = [''where'', field, f]\<rparr> \<in> set (where_issues w)"
proof -
  let ?i = "\<lparr>issue_code = ''invalid_operator'', issue_path = [''where'', field, f]\<rparr>"
  let ?h = "\<lambda>field (f, v). if f \<in> set recognized_operators then []
              else [\<lparr>issue_code = ''invalid_operator'', issue_path = [''where'', field, f]\<rparr>]"
  let ?k = "\<lambda>(field, spec). concat (map (?h field) spec)"
  have "?i \<in> set (?h field (f, v))"
    using assms(3) by simp
  moreover have "?h field (f, v) \<in> ?h field ` set spec"
    using assms(2) by (rule imageI)
  ultimately have "?i \<in> set (concat (map (?h field) spec))"
    by (simp only: set_concat set_map) blast
  then have "?i \<in> set (?k (field, spec))"
    by simp
  moreover have "?k (field, spec) \<in> ?k ` set w"
    using assms(1) by (rule imageI)
  ultimately have "?i \<in> set (concat (map ?k w))"
    by (simp only: set_concat set_map) blast
  then show ?thesis
    by (simp add: where_issues_def)
qed

text \<open>
  Claim C9, on the validation modelled from the specification. A request whose
  \<open>where\<close> form names an operator outside the recognized ones ends in a validation
  error whose issues name the field and the operator; the handler behind the
  validation is not run, whatever it is, so that no query reaches the store and the
  operator is not dispatched.
\<close>

theorem unknown_operator_rejected:
  fixes sq :: "'a ethscription_query_scheme"
  assumes "where_param sq = Some w" and "(field, spec) \<in> set w" and "(f, v) \<in> set spec"
    and "f \<notin> set recognized_operators"
  shows "withValidation (GET_part_002 st sp) sq = ValidationError (where_issues w)
     \<and> withValidation (GET_part_001 st sp) sq = ValidationError (where_issues w)
     \<and> \<lparr>issue_code = ''invalid_operator'', issue_path = [''where'', field, f]\<rparr> \<in> set (where_issues w)"
  using assms where_issues_member [of field spec w f v]
  by (auto simp: withValidation_def)

theorem unknown_operator_rejected_witness:
  "withValidation (GET_part_002 (example_store []) [])
      (example_query\<lparr>where_param := Some [(''block_number'', [(''gt'', ''1''), (''sql'', ''x'')])]\<rparr>)
   = ValidationError [\<lparr>issue_code = ''invalid_operator'', issue_path = [''where'', ''block_number'', ''sql'']\<rparr>]"
  using unknown_operator_rejected [of
      "example_query\<lparr>where_param := Some [(''block_number'', [(''gt'', ''1''), (''sql'', ''x'')])]\<rparr>"
      "[(''block_number'', [(''gt'', ''1''), (''sql'', ''x'')])]" "''block_number''"
      "[(''gt'', ''1''), (''sql'', ''x'')]" "''sql''" "''x''" "example_store []" "[]"]
  by (simp add: example_query_def where_issues_def recognized_operators_def)

section \<open>The rows and the total of a query\<close>











section \<open>The total\<close>







section \<open>Cursor mode\<close>








section \<open>Projection\<close>


























section \<open>Following the cursor to the end\<close>























end
